theory Spec2Isabelle
  imports Complex_Main
begin

section \<open>The training script \<^verbatim>\<open>train.py\<close> of the hyperparameter notebook\<close>

text \<open>
  The notebook \<^verbatim>\<open>11_exploring_hyperparameters_on_azureml.ipynb\<close> writes one
  program of its own, the script \<^verbatim>\<open>train.py\<close> (cell \<^verbatim>\<open>%%writefile\<close>):
  it declares an \<^verbatim>\<open>argparse\<close> parser, reads the parsed parameters, trains a
  detector and logs the result with \<^verbatim>\<open>run.log\<close>. This theory embeds that
  script. Python values are the datatype \<open>val\<close>; Python floats are taken as reals.
\<close>

subsection \<open>Values, argument declarations and errors\<close>

datatype val = VNone | VStr string | VInt int | VFloat real

text \<open>The \<^verbatim>\<open>type=\<close> keyword of \<^verbatim>\<open>add_argument\<close>: \<^verbatim>\<open>str\<close>, \<^verbatim>\<open>int\<close> or \<^verbatim>\<open>float\<close>.\<close>

datatype ty = TStr | TInt | TFloat

text \<open>
  One \<^verbatim>\<open>parser.add_argument(flag, type=.., dest=.., default=..)\<close> call. A call
  without \<^verbatim>\<open>default=\<close> leaves argparse's default \<^verbatim>\<open>None\<close>, here \<open>VNone\<close>.
\<close>

record argument =
  arg_flag :: string
  arg_type :: ty
  arg_dest :: string
  arg_default :: val

text \<open>
  \<open>SystemExit\<close> is \<^verbatim>\<open>parser.error\<close> (an unrecognised option or a value its
  type refuses); the others are the Python exceptions of the same name.
\<close>

datatype error = SystemExit | TypeError | KeyError | IndexError

definition add_argument :: "string \<Rightarrow> ty \<Rightarrow> string \<Rightarrow> val \<Rightarrow> argument" where
  "add_argument f t d v = \<lparr>arg_flag = f, arg_type = t, arg_dest = d, arg_default = v\<rparr>"

text \<open>The fifteen declarations of the script, in its order and with its defaults.\<close>

definition parser :: "argument list" where
  "parser =
    [add_argument ''--data-folder'' TStr ''data_dir'' VNone,
     add_argument ''--data-subfolder'' TStr ''data_subfolder'' VNone,
     add_argument ''--epochs'' TInt ''epochs'' (VInt 20),
     add_argument ''--batch_size'' TInt ''batch_size'' (VInt 2),
     add_argument ''--learning_rate'' TFloat ''learning_rate'' (VFloat (1 / 10000)),
     add_argument ''--min_size'' TInt ''min_size'' (VInt 800),
     add_argument ''--max_size'' TInt ''max_size'' (VInt 1333),
     add_argument ''--rpn_pre_nms_top_n_train'' TInt ''rpn_pre_nms_top_n_train'' (VInt 2000),
     add_argument ''--rpn_pre_nms_top_n_test'' TInt ''rpn_pre_nms_top_n_test'' (VInt 1000),
     add_argument ''--rpn_post_nms_top_n_train'' TInt ''rpn_post_nms_top_n_train'' (VInt 2000),
     add_argument ''--rpn_post_nms_top_n_test'' TInt ''rpn_post_nms_top_n_test'' (VInt 1000),
     add_argument ''--rpn_nms_thresh'' TFloat ''rpn_nms_thresh'' (VFloat (7 / 10)),
     add_argument ''--box_score_thresh'' TFloat ''box_score_thresh'' (VFloat (5 / 100)),
     add_argument ''--box_nms_thresh'' TFloat ''box_nms_thresh'' (VFloat (5 / 10)),
     add_argument ''--box_detections_per_img'' TInt ''box_detections_per_img'' (VInt 100)]"

subsection \<open>\<^verbatim>\<open>parser.parse_args()\<close> and \<^verbatim>\<open>vars(args)\<close>\<close>

text \<open>
  The command line is taken as argparse has split it: the list, in order, of the option
  strings it holds as they were typed (the part of the token before any \<^verbatim>\<open>=\<close>), each
  with the argument that goes with it, converted by the option's \<^verbatim>\<open>type\<close>.
  \<open>has_type\<close> says that the conversion succeeded. The namespace
  (\<^verbatim>\<open>params = vars(args)\<close>) maps every \<^verbatim>\<open>dest\<close> to the value given last, or
  to the declared default.

  The script builds its parser with \<^verbatim>\<open>argparse.ArgumentParser()\<close>, which keeps
  \<^verbatim>\<open>allow_abbrev\<close>: an option string is looked up as it stands
  (\<open>option_string_action\<close>, the dictionary of declared option strings) and, when it is
  not declared, as an abbreviation. \<open>get_option_tuples\<close> collects the declared options
  that a string beginning with two dashes is a prefix of; a string with one dash is a
  prefix of none, since every declared option begins with two. Exactly one candidate
  resolves the string; none, or several (an ambiguous abbreviation), end the script through
  \<^verbatim>\<open>parser.error\<close>, as does an argument the option's type refuses.
\<close>

type_synonym namespace = "string \<rightharpoonup> val"

fun has_type :: "ty \<Rightarrow> val \<Rightarrow> bool" where
  "has_type TStr (VStr s) = True"
| "has_type TInt (VInt i) = True"
| "has_type TFloat (VFloat x) = True"
| "has_type t v = False"

text \<open>\<^verbatim>\<open>s.startswith(p)\<close>.\<close>

fun startswith :: "string \<Rightarrow> string \<Rightarrow> bool" where
  "startswith s [] = True"
| "startswith [] (c # p) = False"
| "startswith (d # s) (c # p) = (d = c \<and> startswith s p)"

fun option_string_action :: "argument list \<Rightarrow> string \<Rightarrow> argument option" where
  "option_string_action [] f = None"
| "option_string_action (a # as) f =
     (if arg_flag a = f then Some a else option_string_action as f)"

definition get_option_tuples :: "argument list \<Rightarrow> string \<Rightarrow> argument list" where
  "get_option_tuples ps f =
     (if startswith f ''--'' then filter (\<lambda>a. startswith (arg_flag a) f) ps else [])"

definition find_action :: "argument list \<Rightarrow> string \<Rightarrow> argument option" where
  "find_action ps f =
     (case option_string_action ps f of
        Some a \<Rightarrow> Some a
      | None \<Rightarrow> (case get_option_tuples ps f of [a] \<Rightarrow> Some a | other \<Rightarrow> None))"

fun defaults :: "argument list \<Rightarrow> namespace" where
  "defaults [] = Map.empty"
| "defaults (a # as) = (defaults as)(arg_dest a \<mapsto> arg_default a)"

fun parse_known :: "argument list \<Rightarrow> (string \<times> val) list \<Rightarrow> namespace \<Rightarrow> error + namespace" where
  "parse_known ps [] ns = Inr ns"
| "parse_known ps ((f, v) # rest) ns =
     (case find_action ps f of
        None \<Rightarrow> Inl SystemExit
      | Some a \<Rightarrow>
          if has_type (arg_type a) v then parse_known ps rest (ns(arg_dest a \<mapsto> v))
          else Inl SystemExit)"

definition parse_args :: "(string \<times> val) list \<Rightarrow> error + namespace" where
  "parse_args argv = parse_known parser argv (defaults parser)"

text \<open>\<^verbatim>\<open>params[key]\<close>: a missing key raises \<^verbatim>\<open>KeyError\<close>.\<close>

definition item :: "namespace \<Rightarrow> string \<Rightarrow> error + val" where
  "item params k = (case params k of None \<Rightarrow> Inl KeyError | Some v \<Rightarrow> Inr v)"

subsection \<open>The body of the script\<close>

text \<open>
  \<^verbatim>\<open>os.path.join(a, b)\<close> on the compute target (POSIX): an absolute \<open>b\<close>
  replaces \<open>a\<close>, otherwise the two are joined by one separator. An argument that is
  not a string (\<^verbatim>\<open>None\<close> when the option was not given) raises \<^verbatim>\<open>TypeError\<close>.
\<close>

fun startswith_sep :: "string \<Rightarrow> bool" where
  "startswith_sep [] = False"
| "startswith_sep (c # cs) = (c = CHR ''/'')"

definition endswith_sep :: "string \<Rightarrow> bool" where
  "endswith_sep a = startswith_sep (rev a)"

definition posix_join :: "string \<Rightarrow> string \<Rightarrow> string" where
  "posix_join a b =
     (if startswith_sep b then b
      else if a = [] \<or> endswith_sep a then a @ b
      else a @ ''/'' @ b)"

fun path_join :: "val \<Rightarrow> val \<Rightarrow> error + string" where
  "path_join (VStr a) (VStr b) = Inr (posix_join a b)"
| "path_join a b = Inl TypeError"

text \<open>
  Modelled from the spec: \<^verbatim>\<open>DetectionLearner.fit\<close> of
  \<^verbatim>\<open>utils_cv/detection/model.py\<close> is not among the sources. The script prints its
  result as "Average precision after each epoch", and the specification's claim calls it
  the per-epoch AP list: the list \<^verbatim>\<open>detector.ap\<close> holds one average precision for
  each of the \<open>epochs\<close> epochs trained (none when \<open>epochs\<close> is not positive, as for
  \<^verbatim>\<open>range(epochs)\<close>). The precision measured after epoch \<open>i\<close> is the parameter
  \<open>ap_after i\<close>.
\<close>

definition fit :: "(nat \<Rightarrow> real) \<Rightarrow> int \<Rightarrow> real list" where
  "fit ap_after epochs = map ap_after [0..<nat epochs]"

text \<open>\<^verbatim>\<open>xs[-1]\<close>: the last element; \<^verbatim>\<open>IndexError\<close> on the empty list.\<close>

fun last_item :: "'a list \<Rightarrow> error + 'a" where
  "last_item [] = Inl IndexError"
| "last_item (x # xs) = Inr (last (x # xs))"

text \<open>
  The keys of the fourteen \<^verbatim>\<open>run.log(key, params[key])\<close> calls that follow the
  logging of the primary metric, in the script's order.
\<close>

definition logged_keys :: "string list" where
  "logged_keys =
    [''data_dir'', ''epochs'', ''batch_size'', ''learning_rate'', ''min_size'', ''max_size'',
     ''rpn_pre_nms_top_n_train'', ''rpn_pre_nms_top_n_test'',
     ''rpn_post_nms_top_n_train'', ''rpn_post_nms_top_n_test'',
     ''rpn_nms_thresh'', ''box_score_thresh'', ''box_nms_thresh'',
     ''box_detections_per_img'']"

fun log_all :: "namespace \<Rightarrow> string list \<Rightarrow> error + (string \<times> val) list" where
  "log_all params [] = Inr []"
| "log_all params (k # ks) =
     (case item params k of
        Inl e \<Rightarrow> Inl e
      | Inr v \<Rightarrow> (case log_all params ks of Inl e \<Rightarrow> Inl e | Inr l \<Rightarrow> Inr ((k, v) # l)))"

text \<open>
  The script from \<^verbatim>\<open>parse_args\<close> to its last \<^verbatim>\<open>run.log\<close>. The dataset, the
  model and the training itself are outside the sources: \<open>learner data_path params\<close>
  stands for them and gives the average precision after each epoch of the training that
  these parameters start. The result is the run's log, the list of the
  \<^verbatim>\<open>run.log\<close> calls in order, or the exception that ended the script; every
  exception of the model is raised before the first \<^verbatim>\<open>run.log\<close> call or by a
  \<^verbatim>\<open>params[key]\<close> of a declared \<^verbatim>\<open>dest\<close>, which cannot miss.
\<close>

definition train ::
  "(string \<Rightarrow> namespace \<Rightarrow> nat \<Rightarrow> real) \<Rightarrow> (string \<times> val) list \<Rightarrow> error + (string \<times> val) list" where
  "train learner argv =
     (case parse_args argv of
        Inl e \<Rightarrow> Inl e
      | Inr params \<Rightarrow>
     (case item params ''data_dir'' of
        Inl e \<Rightarrow> Inl e
      | Inr data_dir \<Rightarrow>
     (case item params ''data_subfolder'' of
        Inl e \<Rightarrow> Inl e
      | Inr data_subfolder \<Rightarrow>
     (case path_join data_dir data_subfolder of
        Inl e \<Rightarrow> Inl e
      | Inr data_path \<Rightarrow>
     (case item params ''epochs'' of
        Inl e \<Rightarrow> Inl e
      | Inr (VInt epochs) \<Rightarrow>
         (case last_item (fit (learner data_path params) epochs) of
            Inl e \<Rightarrow> Inl e
          | Inr acc \<Rightarrow>
             (case log_all params logged_keys of
                Inl e \<Rightarrow> Inl e
              | Inr echoes \<Rightarrow> Inr ((''accuracy'', VFloat acc) # echoes)))
      | Inr other \<Rightarrow> Inl TypeError)))))"

section \<open>Properties of the parser\<close>

subsection \<open>Lemmas on \<open>parse_args\<close>\<close>

lemma option_string_action_Some:
  "option_string_action ps f = Some a \<Longrightarrow> a \<in> set ps \<and> arg_flag a = f"
  by (induction ps) (auto split: if_splits)

lemma get_option_tuples_subset: "set (get_option_tuples ps f) \<subseteq> set ps"
  by (auto simp: get_option_tuples_def)

lemma find_action_Some:
  assumes "find_action ps f = Some a"
  shows "a \<in> set ps"
proof (cases "option_string_action ps f")
  case (Some b)
  with assms have "b = a" by (simp add: find_action_def)
  with Some show ?thesis using option_string_action_Some by blast
next
  case None
  with assms have "get_option_tuples ps f = [a]"
    by (simp add: find_action_def split: list.splits)
  then have "a \<in> set (get_option_tuples ps f)" by simp
  with get_option_tuples_subset show ?thesis by blast
qed

lemma defaults_dest:
  "distinct (map arg_dest ps) \<Longrightarrow> a \<in> set ps \<Longrightarrow> defaults ps (arg_dest a) = Some (arg_default a)"
proof (induction ps)
  case Nil
  then show ?case by simp
next
  case (Cons b ps)
  show ?case
  proof (cases "a = b")
    case True
    then show ?thesis by simp
  next
    case False
    with Cons.prems have "a \<in> set ps" and "arg_dest b \<notin> arg_dest ` set ps" by auto
    then have "arg_dest a \<noteq> arg_dest b" by (metis imageI)
    with Cons \<open>a \<in> set ps\<close> show ?thesis by simp
  qed
qed

lemma defaults_dom: "dom (defaults ps) = arg_dest ` set ps"
proof (induction ps)
  case Nil
  then show ?case by simp
next
  case (Cons a ps)
  have step: "dom (defaults (a # ps)) = insert (arg_dest a) (dom (defaults ps))"
    by simp
  show ?case unfolding step Cons.IH by simp
qed

lemma parse_known_filter:
  "\<not> isl (parse_known ps argv ns) \<Longrightarrow> \<not> isl (parse_known ps (filter P argv) ns')"
proof (induction argv arbitrary: ns ns')
  case Nil
  then show ?case by simp
next
  case (Cons x argv)
  obtain f v where x: "x = (f, v)" by (cases x)
  from Cons.prems x obtain a where a: "find_action ps f = Some a" "has_type (arg_type a) v"
    and rest: "\<not> isl (parse_known ps argv (ns(arg_dest a \<mapsto> v)))"
    by (auto split: option.splits if_splits)
  show ?case
  proof (cases "P x")
    case True
    with x a Cons.IH [OF rest] show ?thesis by simp
  next
    case False
    with Cons.IH [OF rest] show ?thesis by simp
  qed
qed

lemma parse_known_untouched:
  "parse_known ps argv ns = Inr ns' \<Longrightarrow>
   (\<And>f v a. (f, v) \<in> set argv \<Longrightarrow> find_action ps f = Some a \<Longrightarrow> arg_dest a \<noteq> d) \<Longrightarrow>
   ns' d = ns d"
proof (induction argv arbitrary: ns)
  case Nil
  then show ?case by simp
next
  case (Cons x argv)
  obtain f v where x: "x = (f, v)" by (cases x)
  from Cons.prems(1) x obtain a where a: "find_action ps f = Some a"
    and rest: "parse_known ps argv (ns(arg_dest a \<mapsto> v)) = Inr ns'"
    by (auto split: option.splits if_splits)
  have "arg_dest a \<noteq> d" using Cons.prems(2) [of f v a] x a by simp
  moreover have "ns' d = (ns(arg_dest a \<mapsto> v)) d"
  proof (rule Cons.IH [OF rest])
    fix f' v' a'
    assume "(f', v') \<in> set argv" and "find_action ps f' = Some a'"
    then show "arg_dest a' \<noteq> d" using Cons.prems(2) [of f' v' a'] by simp
  qed
  ultimately show ?case by simp
qed

lemma parse_known_dom: "parse_known ps argv ns = Inr ns' \<Longrightarrow> dom ns \<subseteq> dom ns'"
proof (induction argv arbitrary: ns)
  case Nil
  then show ?case by simp
next
  case (Cons x argv)
  obtain f v where x: "x = (f, v)" by (cases x)
  from Cons.prems x obtain a :: argument where
    rest: "parse_known ps argv (ns(arg_dest a \<mapsto> v)) = Inr ns'"
    by (cases "find_action ps f") (auto split: if_splits)
  have "dom ns \<subseteq> dom (ns(arg_dest a \<mapsto> v))" by auto
  with Cons.IH [OF rest] show ?case by blast
qed

lemma distinct_dests: "distinct (map arg_dest parser)"
  by (simp add: parser_def add_argument_def)

lemma log_all_keys: "log_all params ks = Inr l \<Longrightarrow> map fst l = ks"
  by (induction ks arbitrary: l) (auto split: sum.splits)

lemma log_all_total: "set ks \<subseteq> dom params \<Longrightarrow> \<exists>l. log_all params ks = Inr l"
  by (induction ks) (auto simp: item_def split: sum.splits option.splits)

lemma logged_keys_dests: "set logged_keys \<subseteq> arg_dest ` set parser"
  by (simp add: logged_keys_def parser_def add_argument_def)

lemma parse_args_dom: "parse_args argv = Inr params \<Longrightarrow> arg_dest ` set parser \<subseteq> dom params"
  using parse_known_dom [of parser argv "defaults parser" params]
  by (simp add: parse_args_def defaults_dom)

lemma stated_defaults:
  "a \<in> set parser \<Longrightarrow>
   (arg_default a = VNone) = (arg_flag a \<in> {''--data-folder'', ''--data-subfolder''})"
  unfolding parser_def add_argument_def by (elim set_ConsD [elim_format] disjE) simp_all

subsection \<open>Defaults of the declared flags\<close>

text \<open>
  Claim C8, as amended. Every flag that the script declares, apart from the two data
  location flags \<^verbatim>\<open>--data-folder\<close> and \<^verbatim>\<open>--data-subfolder\<close>, has a
  stated default; these two have none (their default is \<^verbatim>\<open>None\<close>). The script
  parses an argument list that omits any one flag: taking out of a list that parses
  every option string that resolves to the flag, written in full or abbreviated, leaves a
  list that parses, and the flag's parameter then holds its default (\<^verbatim>\<open>None\<close> for
  the two data location flags).
\<close>

theorem omitted_flag_takes_default:
  assumes "a \<in> set parser" and "\<not> isl (parse_args argv)"
  shows "(arg_default a = VNone \<longleftrightarrow> arg_flag a \<in> {''--data-folder'', ''--data-subfolder''}) \<and>
         (\<exists>params. parse_args (filter (\<lambda>(f, v). find_action parser f \<noteq> Some a) argv) = Inr params \<and>
                   params (arg_dest a) = Some (arg_default a))"
proof
  show "arg_default a = VNone \<longleftrightarrow> arg_flag a \<in> {''--data-folder'', ''--data-subfolder''}"
    using assms(1) by (rule stated_defaults)
next
  let ?argv = "filter (\<lambda>(f, v). find_action parser f \<noteq> Some a) argv"
  have "\<not> isl (parse_known parser ?argv (defaults parser))"
    using assms(2) unfolding parse_args_def by (rule parse_known_filter)
  then obtain params where params: "parse_known parser ?argv (defaults parser) = Inr params"
    by (cases "parse_known parser ?argv (defaults parser)") auto
  have inj: "inj_on arg_dest (set parser)"
    using distinct_dests by (simp add: distinct_map)
  have "params (arg_dest a) = defaults parser (arg_dest a)"
  proof (rule parse_known_untouched [OF params])
    fix f v and b :: argument
    assume "(f, v) \<in> set ?argv" and "find_action parser f = Some b"
    then have "b \<noteq> a" and "b \<in> set parser"
      using find_action_Some [of parser f b] by auto
    with inj \<open>b \<in> set parser\<close> assms(1) show "arg_dest b \<noteq> arg_dest a"
      by (metis inj_onD)
  qed
  also have "\<dots> = Some (arg_default a)"
    using distinct_dests assms(1) by (rule defaults_dest)
  finally show "\<exists>params. parse_args ?argv = Inr params \<and> params (arg_dest a) = Some (arg_default a)"
    using params by (simp add: parse_args_def)
qed

text \<open>
  The theorem at the flag \<^verbatim>\<open>--epochs\<close>, given abbreviated and in full on the
  command line \<^verbatim>\<open>--epoch 5 --max_size 600 --epochs 3\<close>: both occurrences resolve
  to the flag, and with them left out the parameter parses to its default 20.
\<close>

theorem omitted_flag_takes_default_witness:
  "add_argument ''--epochs'' TInt ''epochs'' (VInt 20) \<in> set parser \<and>
   \<not> isl (parse_args [(''--epoch'', VInt 5), (''--max_size'', VInt 600), (''--epochs'', VInt 3)]) \<and>
   filter (\<lambda>(f, v). find_action parser f \<noteq> Some (add_argument ''--epochs'' TInt ''epochs'' (VInt 20)))
     [(''--epoch'', VInt 5), (''--max_size'', VInt 600), (''--epochs'', VInt 3)] =
     [(''--max_size'', VInt 600)] \<and>
   (\<exists>params. parse_args [(''--max_size'', VInt 600)] = Inr params \<and>
             params ''epochs'' = Some (VInt 20))"
proof -
  let ?a = "add_argument ''--epochs'' TInt ''epochs'' (VInt 20)"
  let ?argv = "[(''--epoch'', VInt 5), (''--max_size'', VInt 600), (''--epochs'', VInt 3)]"
  have a: "?a \<in> set parser"
    by (simp add: parser_def)
  have p: "\<not> isl (parse_args ?argv)"
    by (simp add: parse_args_def parser_def add_argument_def find_action_def
        get_option_tuples_def)
  have f: "filter (\<lambda>(f, v). find_action parser f \<noteq> Some ?a) ?argv = [(''--max_size'', VInt 600)]"
    by (simp add: parser_def add_argument_def find_action_def get_option_tuples_def)
  from omitted_flag_takes_default [OF a p]
  have "\<exists>params. parse_args (filter (\<lambda>(f, v). find_action parser f \<noteq> Some ?a) ?argv) = Inr params \<and>
      params (arg_dest ?a) = Some (arg_default ?a)"
    by (rule conjunct2)
  then have "\<exists>params. parse_args [(''--max_size'', VInt 600)] = Inr params \<and>
      params ''epochs'' = Some (VInt 20)"
    unfolding f by (simp add: add_argument_def)
  with a p f show ?thesis by (intro conjI)
qed

text \<open>
  Claim C8 as stated fails at its first flag: \<^verbatim>\<open>--data-folder\<close> is declared
  without \<^verbatim>\<open>default=\<close>, so its default is \<^verbatim>\<open>None\<close>.
\<close>

theorem data_folder_has_no_default:
  "map_option arg_default (find_action parser ''--data-folder'') = Some VNone"
  by (simp add: parser_def add_argument_def find_action_def)

text \<open>
  Abbreviations: \<^verbatim>\<open>--epoch 5\<close> sets \<^verbatim>\<open>epochs\<close>, and the two data location flags
  are reached by \<^verbatim>\<open>--data-f\<close> and \<^verbatim>\<open>--data-s\<close>; \<^verbatim>\<open>--rpn_pre\<close> is ambiguous and
  \<^verbatim>\<open>--data\<close> as well; a string with one dash, the bare \<^verbatim>\<open>--\<close> and a string
  that is a prefix of no declared option are not recognised.
\<close>

lemma abbreviation_sets_epochs:
  "\<exists>params. parse_args [(''--epoch'', VInt 5)] = Inr params \<and> params ''epochs'' = Some (VInt 5)"
  by (simp add: parse_args_def parser_def add_argument_def find_action_def get_option_tuples_def)

lemma abbreviations_of_data_location:
  "find_action parser ''--data-f'' = find_action parser ''--data-folder''"
  "find_action parser ''--data-s'' = find_action parser ''--data-subfolder''"
  by (simp_all add: parser_def add_argument_def find_action_def get_option_tuples_def)

lemma unrecognized_option_strings:
  "find_action parser ''-e'' = None"
  "find_action parser ''--'' = None"
  "find_action parser ''-'' = None"
  "find_action parser [] = None"
  "find_action parser ''--epochz'' = None"
  by (simp_all add: parser_def add_argument_def find_action_def get_option_tuples_def)

lemma ambiguous_abbreviations:
  "find_action parser ''--rpn_pre'' = None"
  "find_action parser ''--data'' = None"
  "parse_args [(''--data'', VStr ''x'')] = Inl SystemExit"
  by (simp_all add: parse_args_def parser_def add_argument_def find_action_def
      get_option_tuples_def)

text \<open>
  A command line without the data location parses, and the script then stops at
  \<^verbatim>\<open>os.path.join\<close> with a \<^verbatim>\<open>TypeError\<close>.
\<close>

lemma train_without_data_location: "train learner [] = Inl TypeError"
  by (simp add: train_def parse_args_def parser_def add_argument_def item_def)

section \<open>Properties of the script's log\<close>

lemma train_Inr:
  assumes "train learner argv = Inr l"
  obtains params d s e acc echoes where
    "parse_args argv = Inr params" "params ''data_dir'' = Some (VStr d)"
    "params ''data_subfolder'' = Some (VStr s)" "params ''epochs'' = Some (VInt e)"
    "last_item (fit (learner (posix_join d s) params) e) = Inr acc"
    "log_all params logged_keys = Inr echoes" "l = (''accuracy'', VFloat acc) # echoes"
proof -
  from assms obtain params where 1: "parse_args argv = Inr params"
    by (cases "parse_args argv") (auto simp: train_def)
  from assms 1 obtain dv where 2: "params ''data_dir'' = Some dv"
    by (cases "params ''data_dir''") (auto simp: train_def item_def)
  from assms 1 2 obtain sv where 3: "params ''data_subfolder'' = Some sv"
    by (cases "params ''data_subfolder''") (auto simp: train_def item_def)
  from assms 1 2 3 obtain p where 4: "path_join dv sv = Inr p"
    by (cases "path_join dv sv") (auto simp: train_def item_def)
  then obtain d s where 5: "dv = VStr d" "sv = VStr s" "p = posix_join d s"
    by (cases "(dv, sv)" rule: path_join.cases) auto
  from assms 1 2 3 4 obtain ev where 6: "params ''epochs'' = Some ev"
    by (cases "params ''epochs''") (auto simp: train_def item_def)
  from assms 1 2 3 4 6 obtain e where 7: "ev = VInt e"
    by (cases ev) (auto simp: train_def item_def)
  from assms 1 2 3 4 5 6 7 obtain acc where 8: "last_item (fit (learner (posix_join d s) params) e) = Inr acc"
    by (cases "last_item (fit (learner (posix_join d s) params) e)") (auto simp: train_def item_def)
  from assms 1 2 3 4 5 6 7 8 obtain echoes where 9: "log_all params logged_keys = Inr echoes"
    by (cases "log_all params logged_keys") (auto simp: train_def item_def)
  from assms 1 2 3 4 5 6 7 8 9 have "l = (''accuracy'', VFloat acc) # echoes"
    by (auto simp: train_def item_def)
  with 1 2 3 5 6 7 8 9 that show thesis by blast
qed

lemma last_item_nonempty: "xs \<noteq> [] \<Longrightarrow> last_item xs = Inr (last xs)"
  by (cases xs) simp_all

lemma fit_last: "0 < e \<Longrightarrow> last_item (fit f e) = Inr (f (nat e - 1))"
proof -
  assume "0 < e"
  then have ne: "[0..<nat e] \<noteq> []" by simp
  then have "last (map f [0..<nat e]) = f (last [0..<nat e])" by (rule last_map)
  also have "last [0..<nat e] = nat e - 1" using \<open>0 < e\<close> by (simp add: last_upt)
  finally show ?thesis using ne by (simp add: fit_def last_item_nonempty)
qed

lemma fit_empty: "e \<le> 0 \<Longrightarrow> fit f e = []"
  by (simp add: fit_def)

subsection \<open>What a completed run logs\<close>

text \<open>
  Claim C9, what the script does. A run that completes logs fifteen entries: the primary
  metric under the name \<^verbatim>\<open>accuracy\<close>, once and first, then the fourteen parameters
  of \<open>logged_keys\<close>. No entry has the key \<^verbatim>\<open>data_subfolder\<close>, although the
  script parsed a string for that parameter and used it to build the data path: the
  parameter received through \<^verbatim>\<open>--data-subfolder\<close> is not echoed.
\<close>

theorem completed_run_log_keys:
  assumes "train learner argv = Inr l"
  shows "map fst l = ''accuracy'' # logged_keys \<and> length l = 15 \<and>
         ''data_subfolder'' \<notin> set (map fst l) \<and>
         (\<exists>params s. parse_args argv = Inr params \<and> params ''data_subfolder'' = Some (VStr s))"
proof -
  from assms obtain params s echoes acc where
    p: "parse_args argv = Inr params" "params ''data_subfolder'' = Some (VStr s)"
    and e: "log_all params logged_keys = Inr echoes" and l: "l = (''accuracy'', VFloat acc) # echoes"
    by (rule train_Inr)
  from e have keys: "map fst echoes = logged_keys" by (rule log_all_keys)
  with l have 1: "map fst l = ''accuracy'' # logged_keys" by simp
  then have "length (map fst l) = 15" by (simp add: logged_keys_def)
  then have 2: "length l = 15" by simp
  have 3: "''data_subfolder'' \<notin> set (map fst l)"
    unfolding 1 by (simp add: logged_keys_def)
  from 1 2 3 p show ?thesis by blast
qed

text \<open>
  The theorem at the command line that the notebook's sweep gives a run
  (\<^verbatim>\<open>--data-folder\<close>, \<^verbatim>\<open>--data-subfolder\<close>, \<^verbatim>\<open>--learning_rate 0.01\<close>,
  \<^verbatim>\<open>--max_size 600\<close>), with a learner of constant precision 0.89: the log in full.
\<close>

theorem completed_run_log_keys_witness:
  "train (\<lambda>p ns i. 89 / 100)
     [(''--data-folder'', VStr ''/mnt/workspaceblobstore''),
      (''--data-subfolder'', VStr ''01679d79-1c47-49b8-88c3-d657f36b0c0f''),
      (''--learning_rate'', VFloat (1 / 100)), (''--max_size'', VInt 600)] =
   Inr [(''accuracy'', VFloat (89 / 100)), (''data_dir'', VStr ''/mnt/workspaceblobstore''),
        (''epochs'', VInt 20), (''batch_size'', VInt 2), (''learning_rate'', VFloat (1 / 100)),
        (''min_size'', VInt 800), (''max_size'', VInt 600),
        (''rpn_pre_nms_top_n_train'', VInt 2000), (''rpn_pre_nms_top_n_test'', VInt 1000),
        (''rpn_post_nms_top_n_train'', VInt 2000), (''rpn_post_nms_top_n_test'', VInt 1000),
        (''rpn_nms_thresh'', VFloat (7 / 10)), (''box_score_thresh'', VFloat (5 / 100)),
        (''box_nms_thresh'', VFloat (5 / 10)), (''box_detections_per_img'', VInt 100)] \<and>
   ''data_subfolder'' \<notin> set (''accuracy'' # logged_keys) \<and>
   (\<exists>params. parse_args
       [(''--data-folder'', VStr ''/mnt/workspaceblobstore''),
        (''--data-subfolder'', VStr ''01679d79-1c47-49b8-88c3-d657f36b0c0f''),
        (''--learning_rate'', VFloat (1 / 100)), (''--max_size'', VInt 600)] = Inr params \<and>
      params ''data_subfolder'' = Some (VStr ''01679d79-1c47-49b8-88c3-d657f36b0c0f''))"
proof -
  let ?argv = "[(''--data-folder'', VStr ''/mnt/workspaceblobstore''),
      (''--data-subfolder'', VStr ''01679d79-1c47-49b8-88c3-d657f36b0c0f''),
      (''--learning_rate'', VFloat (1 / 100)), (''--max_size'', VInt 600)]"
  let ?l = "[(''accuracy'', VFloat (89 / 100)), (''data_dir'', VStr ''/mnt/workspaceblobstore''),
        (''epochs'', VInt 20), (''batch_size'', VInt 2), (''learning_rate'', VFloat (1 / 100)),
        (''min_size'', VInt 800), (''max_size'', VInt 600),
        (''rpn_pre_nms_top_n_train'', VInt 2000), (''rpn_pre_nms_top_n_test'', VInt 1000),
        (''rpn_post_nms_top_n_train'', VInt 2000), (''rpn_post_nms_top_n_test'', VInt 1000),
        (''rpn_nms_thresh'', VFloat (7 / 10)), (''box_score_thresh'', VFloat (5 / 100)),
        (''box_nms_thresh'', VFloat (5 / 10)), (''box_detections_per_img'', VInt 100)]"
  have run: "train (\<lambda>p ns i. 89 / 100) ?argv = Inr ?l"
    by (simp add: train_def parse_args_def parser_def add_argument_def find_action_def
        item_def posix_join_def endswith_sep_def fit_last logged_keys_def)
  have keys: "map fst ?l = ''accuracy'' # logged_keys"
    using completed_run_log_keys [OF run] by (rule conjunct1)
  have "''data_subfolder'' \<notin> set (map fst ?l)"
    using completed_run_log_keys [OF run] by blast
  then have absent: "''data_subfolder'' \<notin> set (''accuracy'' # logged_keys)"
    unfolding keys .
  have given: "\<exists>params. parse_args ?argv = Inr params \<and>
      params ''data_subfolder'' = Some (VStr ''01679d79-1c47-49b8-88c3-d657f36b0c0f'')"
    by (simp add: parse_args_def parser_def add_argument_def find_action_def)
  from run absent given show ?thesis by (intro conjI)
qed

subsection \<open>The primary metric\<close>

text \<open>
  Claim C10. Once the command line has parsed and named the data location, the epoch
  count \<open>e\<close> decides whether a metric is reported. For \<open>e \<le> 0\<close> the list of average
  precisions is empty, \<^verbatim>\<open>detector.ap[-1]\<close> raises \<^verbatim>\<open>IndexError\<close> and the
  script ends without a log. For \<open>e > 0\<close> the script completes and logs as
  \<^verbatim>\<open>accuracy\<close> the last element of that list, which is the average precision
  measured after the final epoch (epoch \<open>e - 1\<close>, counting from 0).
\<close>

theorem accuracy_is_final_epoch_ap:
  assumes "parse_args argv = Inr params"
    and "params ''data_dir'' = Some (VStr d)"
    and "params ''data_subfolder'' = Some (VStr s)"
    and "params ''epochs'' = Some (VInt e)"
  shows "(e \<le> 0 \<longrightarrow> fit (learner (posix_join d s) params) e = [] \<and>
                    train learner argv = Inl IndexError) \<and>
         (0 < e \<longrightarrow> (\<exists>echoes. map fst echoes = logged_keys \<and>
                    train learner argv =
                    Inr ((''accuracy'', VFloat (last (fit (learner (posix_join d s) params) e))) # echoes)) \<and>
                    last (fit (learner (posix_join d s) params) e) =
                    learner (posix_join d s) params (nat e - 1))"
proof (intro conjI impI)
  assume "e \<le> 0"
  then show "fit (learner (posix_join d s) params) e = []" by (rule fit_empty)
  then show "train learner argv = Inl IndexError"
    using assms by (simp add: train_def item_def)
next
  assume pos: "0 < e"
  let ?ap = "fit (learner (posix_join d s) params) e"
  from pos have li: "last_item ?ap = Inr (learner (posix_join d s) params (nat e - 1))"
    by (rule fit_last)
  from pos have "?ap \<noteq> []" by (simp add: fit_def)
  then have "last_item ?ap = Inr (last ?ap)" by (rule last_item_nonempty)
  with li show lst: "last ?ap = learner (posix_join d s) params (nat e - 1)" by simp
  have "set logged_keys \<subseteq> dom params"
    using logged_keys_dests parse_args_dom [OF assms(1)] by (rule subset_trans)
  then obtain echoes where echoes: "log_all params logged_keys = Inr echoes"
    using log_all_total by blast
  then have "map fst echoes = logged_keys" by (rule log_all_keys)
  moreover have "train learner argv = Inr ((''accuracy'', VFloat (last ?ap)) # echoes)"
    using assms li lst echoes by (simp add: train_def item_def)
  ultimately show "\<exists>echoes. map fst echoes = logged_keys \<and>
      train learner argv = Inr ((''accuracy'', VFloat (last ?ap)) # echoes)"
    by blast
qed

text \<open>
  The theorem at three epochs, with a learner whose precision after epoch \<open>i\<close> is
  \<open>i / 10\<close>: the logged accuracy is 0.2, the precision after the third epoch.
\<close>

theorem accuracy_is_final_epoch_ap_witness:
  "parse_args [(''--data-folder'', VStr ''/mnt''), (''--data-subfolder'', VStr ''fridge''),
               (''--epochs'', VInt 3)] =
     Inr ((defaults parser)(''data_dir'' \<mapsto> VStr ''/mnt'', ''data_subfolder'' \<mapsto> VStr ''fridge'',
                            ''epochs'' \<mapsto> VInt 3)) \<and>
   (\<exists>echoes. train (\<lambda>p ns i. real i / 10)
       [(''--data-folder'', VStr ''/mnt''), (''--data-subfolder'', VStr ''fridge''),
        (''--epochs'', VInt 3)] = Inr ((''accuracy'', VFloat (2 / 10)) # echoes))"
proof -
  let ?argv = "[(''--data-folder'', VStr ''/mnt''), (''--data-subfolder'', VStr ''fridge''),
               (''--epochs'', VInt 3)]"
  let ?params = "(defaults parser)(''data_dir'' \<mapsto> VStr ''/mnt'',
                   ''data_subfolder'' \<mapsto> VStr ''fridge'', ''epochs'' \<mapsto> VInt 3)"
  have p: "parse_args ?argv = Inr ?params"
    by (simp add: parse_args_def parser_def add_argument_def find_action_def)
  have d: "?params ''data_dir'' = Some (VStr ''/mnt'')"
    and s: "?params ''data_subfolder'' = Some (VStr ''fridge'')"
    and e: "?params ''epochs'' = Some (VInt 3)"
    by simp_all
  let ?ap = "fit (\<lambda>i. real i / 10) 3"
  from accuracy_is_final_epoch_ap [OF p d s e, of "\<lambda>p ns i. real i / 10"]
  obtain echoes where
    run: "train (\<lambda>p ns i. real i / 10) ?argv = Inr ((''accuracy'', VFloat (last ?ap)) # echoes)"
    and lst: "last ?ap = real (nat 3 - 1) / 10"
    by auto
  from lst have "last ?ap = 2 / 10" by simp
  with run have "train (\<lambda>p ns i. real i / 10) ?argv = Inr ((''accuracy'', VFloat (2 / 10)) # echoes)"
    by simp
  with p show ?thesis by blast
qed

end
